theory Spec2Isabelle
  imports Complex_Main "HOL-Library.Word"
begin

section \<open>JavaScript values\<close>

text \<open>
  The webhook receiver (\<^verbatim>\<open>src/webhook-server.js\<close>) works on values that come out of
  \<^verbatim>\<open>JSON.parse\<close>, on header strings and on the raw request body. Strings are held as the
  bytes of their UTF-8 form (\<^typ>\<open>string\<close>). A number is the real it denotes: no parsed
  number is NaN, and the code only ever tests whether a number is zero. The fields of an
  object are listed once each (\<^verbatim>\<open>JSON.parse\<close> keeps the last of a repeated key).
\<close>

datatype jsval =
    JUndefined
  | JNull
  | JBool bool
  | JNum real
  | JStr string
  | JArr "jsval list"
  | JObj "(string \<times> jsval) list"

text \<open>The exceptions the receiver can meet.\<close>

datatype js_error = TypeError | RangeError | SyntaxError

text \<open>\<^verbatim>\<open>!v\<close> is false exactly for the truthy values.\<close>

fun truthy :: "jsval \<Rightarrow> bool" where
  "truthy JUndefined = False"
| "truthy JNull = False"
| "truthy (JBool b) = b"
| "truthy (JNum r) = (if r = 0 then False else True)"
| "truthy (JStr s) = (if s = [] then False else True)"
| "truthy (JArr xs) = True"
| "truthy (JObj fs) = True"

text \<open>
  The property read \<^verbatim>\<open>v.k\<close>, for the keys the receiver reads (none of them is a property
  of a prototype): a TypeError on \<^verbatim>\<open>undefined\<close> and \<^verbatim>\<open>null\<close>, the field of an object,
  \<^verbatim>\<open>undefined\<close> on everything else.
\<close>

fun get_prop :: "jsval \<Rightarrow> string \<Rightarrow> js_error + jsval" where
  "get_prop JUndefined k = Inl TypeError"
| "get_prop JNull k = Inl TypeError"
| "get_prop (JObj fs) k = Inr (case map_of fs k of None \<Rightarrow> JUndefined | Some v \<Rightarrow> v)"
| "get_prop v k = Inr JUndefined"

text \<open>
  Whether a value can be converted to a primitive, as a template literal
  \<^verbatim>\<open>`${v}`\<close> and the arithmetic \<^verbatim>\<open>v * 1000\<close> do. A parsed object has no callable
  property of its own, so the conversion uses the inherited \<^verbatim>\<open>toString\<close> unless a field
  named \<^verbatim>\<open>toString\<close> shadows it, and then it throws a TypeError. An array joins the
  conversions of its elements.
\<close>

fun coercible :: "jsval \<Rightarrow> bool" where
  "coercible (JObj fs) = (map_of fs ''toString'' = None)"
| "coercible (JArr xs) = list_all coercible xs"
| "coercible v = True"

text \<open>\<^verbatim>\<open>a || b\<close>\<close>

definition js_or :: "jsval \<Rightarrow> jsval \<Rightarrow> jsval" where
  "js_or a b = (if truthy a then a else b)"

section \<open>Header strings\<close>

text \<open>A header or an environment variable is a string or \<^verbatim>\<open>undefined\<close>.\<close>

definition falsy :: "string option \<Rightarrow> bool" where
  "falsy s = (case s of None \<Rightarrow> True | Some t \<Rightarrow> t = [])"

definition str_or :: "string option \<Rightarrow> string option \<Rightarrow> string option" where
  "str_or a b = (if falsy a then b else a)"

definition str_of :: "string option \<Rightarrow> string" where
  "str_of s = (case s of None \<Rightarrow> [] | Some t \<Rightarrow> t)"

definition startsWith :: "string \<Rightarrow> string \<Rightarrow> bool" where
  "startsWith s p = (take (length p) s = p)"

section \<open>Hexadecimal buffers\<close>

type_synonym byte = "8 word"

text \<open>Node's \<^verbatim>\<open>unhex\<close>: the value of a hexadecimal digit of either case.\<close>

definition unhex :: "char \<Rightarrow> nat option" where
  "unhex c =
     (let n = (of_char c :: nat)
      in if 48 \<le> n \<and> n \<le> 57 then Some (n - 48)
         else if 97 \<le> n \<and> n \<le> 102 then Some (n - 87)
         else if 65 \<le> n \<and> n \<le> 70 then Some (n - 55)
         else None)"

text \<open>
  \<^verbatim>\<open>Buffer.from(s, 'hex')\<close> decodes two digits at a time and stops at the first pair
  that is not hexadecimal; a last single character is dropped. It never throws.
\<close>

fun buffer_from_hex :: "string \<Rightarrow> byte list" where
  "buffer_from_hex (c1 # c2 # cs) =
     (case unhex c1 of
        None \<Rightarrow> []
      | Some a \<Rightarrow>
          (case unhex c2 of
             None \<Rightarrow> []
           | Some b \<Rightarrow> word_of_nat (16 * a + b) # buffer_from_hex cs))"
| "buffer_from_hex cs = []"

definition hex_digit :: "nat \<Rightarrow> char" where
  "hex_digit n = ''0123456789abcdef'' ! (n mod 16)"

text \<open>\<^verbatim>\<open>digest('hex')\<close> writes every byte as two lower-case digits.\<close>

definition hex_of_bytes :: "byte list \<Rightarrow> string" where
  "hex_of_bytes bs = concat (map (\<lambda>b. [hex_digit (unat b div 16), hex_digit (unat b mod 16)]) bs)"

text \<open>A SHA-256 digest is 32 bytes.\<close>

typedef digest = "{bs :: byte list. length bs = 32}"
  morphisms digest_bytes Digest
  by (rule exI [of _ "replicate 32 0"]) simp

text \<open>
  \<^verbatim>\<open>crypto.timingSafeEqual(a, b)\<close> throws a RangeError when the two buffers differ in
  length, and compares them otherwise.
\<close>

definition timingSafeEqual :: "byte list \<Rightarrow> byte list \<Rightarrow> js_error + bool" where
  "timingSafeEqual a b = (if length a = length b then Inr (a = b) else Inl RangeError)"

section \<open>The platform\<close>

text \<open>
  What the receiver calls and does not define: the keyed hash of Node's \<^verbatim>\<open>crypto\<close>
  (\<^verbatim>\<open>createHmac('sha256', key).update(data).digest()\<close>),
  \<^verbatim>\<open>JSON.parse\<close> on the text of a buffer (\<open>None\<close> when it throws its SyntaxError), and the
  provider's answers to the two lookups made with \<^verbatim>\<open>axios.get\<close>, and the clock
  (\<^verbatim>\<open>new Date().toISOString()\<close>). The receiver is modelled for every such platform.
\<close>

datatype api_call =
    GetRecording jsval
  | GetAccessLink jsval nat

datatype api_outcome =
    Rejected
  | Resolved jsval

record platform =
  hmac_sha256 :: "string \<Rightarrow> string \<Rightarrow> digest"
  json_parse :: "string \<Rightarrow> jsval option"
  axios_get :: "api_call \<Rightarrow> api_outcome"
  date_now :: string

text \<open>
  \<^verbatim>\<open>req.body\<close> as the body-parsing middleware leaves it: a Buffer of the raw bytes, or a
  value (a parsed object, or a string).
\<close>

datatype body =
    Buffer string
  | Value jsval

text \<open>
  \<^verbatim>\<open>hmac.update(payload)\<close> takes a Buffer or a string and throws a TypeError on anything
  else.
\<close>

fun hmac_data :: "body \<Rightarrow> string option" where
  "hmac_data (Buffer raw) = Some raw"
| "hmac_data (Value (JStr s)) = Some s"
| "hmac_data (Value v) = None"

section \<open>Signature verification\<close>

text \<open>\<^verbatim>\<open>crypto.createHmac('sha256', secret).update(payload).digest('hex')\<close>\<close>

definition hmac_hex :: "platform \<Rightarrow> string \<Rightarrow> string \<Rightarrow> string" where
  "hmac_hex P secret data = hex_of_bytes (digest_bytes (hmac_sha256 P secret data))"

text \<open>\<^verbatim>\<open>signature.startsWith('sha256=') ? signature.slice(7) : signature\<close>\<close>

definition actual_signature :: "string \<Rightarrow> string" where
  "actual_signature signature =
     (if startsWith signature ''sha256='' then drop 7 signature else signature)"

definition verifyWebhookSignature ::
  "platform \<Rightarrow> body \<Rightarrow> string option \<Rightarrow> string option \<Rightarrow> js_error + bool" where
  "verifyWebhookSignature P payload signature secret =
     (if falsy secret \<or> falsy signature then Inr False
      else
        (case hmac_data payload of
           None \<Rightarrow> Inl TypeError
         | Some data \<Rightarrow>
             (let expectedSignature = hmac_hex P (str_of secret) data;
                  actualSignature = actual_signature (str_of signature)
              in timingSafeEqual (buffer_from_hex expectedSignature)
                   (buffer_from_hex actualSignature))))"

section \<open>The log\<close>

text \<open>
  \<^verbatim>\<open>writeLog(message)\<close> prints the line and appends it to the log file; a failure of the
  append is caught there, so \<^verbatim>\<open>writeLog\<close> never throws. The log is the list of the messages
  given to \<^verbatim>\<open>writeLog\<close>, oldest first. A message is one of the source's templates with
  the values it interpolates: how a number or a date is printed depends on the host's
  locale and is not modelled, whether the interpolation throws is (\<^const>\<open>coercible\<close>).
\<close>

datatype log_line =
    LogInvalidSignature
  | LogWebhookError js_error
  | LogReceivedEventType jsval
  | LogEventReceived jsval
  | LogInvalidEvent string
  | LogRecordingStarted (room: jsval) (recording: jsval) (started_by: jsval) (start_ts: jsval)
  | LogRecordingReady (room: jsval) (recording: jsval) (duration: jsval) (start_ts: jsval)
      (s3_key: jsval) (download_url: jsval) (streaming_url: jsval)
  | LogRecordingError (room: jsval) (recording: jsval) (error_msg: jsval)
  | LogVerification
  | LogGetVerification

type_synonym log = "log_line list"

definition writeLog :: "log_line \<Rightarrow> log \<Rightarrow> log" where
  [simp]: "writeLog message lg = lg @ [message]"

text \<open>
  A piece of the receiver leaves the lines it wrote and either a value or the exception
  it threw.
\<close>

type_synonym 'a outcome = "log \<times> (js_error + 'a)"

section \<open>Enrichment lookups\<close>

text \<open>
  Both lookups are wrapped in \<^verbatim>\<open>try/catch\<close> and answer \<^verbatim>\<open>null\<close> on any failure: a
  recording id that cannot be written into the URL, a rejected request, a response
  without data. Otherwise they answer \<^verbatim>\<open>response.data.download_link || null\<close>.
\<close>

definition download_link_or_null :: "api_outcome \<Rightarrow> jsval" where
  "download_link_or_null r =
     (case r of
        Rejected \<Rightarrow> JNull
      | Resolved data \<Rightarrow>
          (case get_prop data ''download_link'' of
             Inl e \<Rightarrow> JNull
           | Inr link \<Rightarrow> js_or link JNull))"

definition getRecordingDownloadUrl :: "platform \<Rightarrow> jsval \<Rightarrow> jsval" where
  "getRecordingDownloadUrl P recordingId =
     (if coercible recordingId then download_link_or_null (axios_get P (GetRecording recordingId))
      else JNull)"

definition getRecordingAccessLink :: "platform \<Rightarrow> jsval \<Rightarrow> nat \<Rightarrow> jsval" where
  "getRecordingAccessLink P recordingId validForSecs =
     (if coercible recordingId
      then download_link_or_null (axios_get P (GetAccessLink recordingId validForSecs))
      else JNull)"

section \<open>Event handlers\<close>

text \<open>\<^verbatim>\<open>!event || !event.payload\<close>\<close>

definition missing_payload :: "jsval \<Rightarrow> bool" where
  "missing_payload event =
     (if truthy event
      then (case get_prop event ''payload'' of Inl e \<Rightarrow> True | Inr p \<Rightarrow> \<not> truthy p)
      else True)"

text \<open>A field of the destructured \<^verbatim>\<open>event.payload\<close>, read once the payload is truthy.\<close>

definition payload_field :: "jsval \<Rightarrow> string \<Rightarrow> jsval" where
  "payload_field event k =
     (case get_prop event ''payload'' of
        Inl e \<Rightarrow> JUndefined
      | Inr p \<Rightarrow> (case get_prop p k of Inl e \<Rightarrow> JUndefined | Inr v \<Rightarrow> v))"

definition handleRecordingStarted :: "jsval \<Rightarrow> unit outcome" where
  "handleRecordingStarted event =
     (if missing_payload event then (writeLog (LogInvalidEvent ''recording.started'') [], Inr ())
      else
        (let room_name = payload_field event ''room_name'';
             recording_id = payload_field event ''recording_id'';
             started_by = payload_field event ''started_by'';
             start_ts = payload_field event ''start_ts''
         in if coercible start_ts \<and> coercible room_name \<and> coercible recording_id
               \<and> coercible (js_or started_by (JStr ''Unknown''))
            then (writeLog (LogRecordingStarted room_name recording_id
                     (js_or started_by (JStr ''Unknown'')) start_ts) [], Inr ())
            else ([], Inl TypeError)))"

definition handleRecordingReady :: "platform \<Rightarrow> jsval \<Rightarrow> unit outcome" where
  "handleRecordingReady P event =
     (if missing_payload event then (writeLog (LogInvalidEvent ''recording.ready-to-download'') [], Inr ())
      else
        (let room_name = payload_field event ''room_name'';
             recording_id = payload_field event ''recording_id'';
             duration = payload_field event ''duration'';
             start_ts = payload_field event ''start_ts'';
             s3_key = payload_field event ''s3_key''
         in if coercible start_ts \<and> coercible duration
            then
              (let downloadUrl = getRecordingDownloadUrl P recording_id;
                   accessLink = getRecordingAccessLink P recording_id 3600
               in if coercible room_name \<and> coercible recording_id
                     \<and> coercible (js_or s3_key (JStr ''Not available''))
                     \<and> coercible (js_or downloadUrl (JStr ''Not available''))
                     \<and> coercible (js_or accessLink (JStr ''Not available''))
                  then (writeLog (LogRecordingReady room_name recording_id duration start_ts
                           (js_or s3_key (JStr ''Not available''))
                           (js_or downloadUrl (JStr ''Not available''))
                           (js_or accessLink (JStr ''Not available''))) [], Inr ())
                  else ([], Inl TypeError))
            else ([], Inl TypeError)))"

definition handleRecordingError :: "jsval \<Rightarrow> unit outcome" where
  "handleRecordingError event =
     (if missing_payload event then (writeLog (LogInvalidEvent ''recording.error'') [], Inr ())
      else
        (let room_name = payload_field event ''room_name'';
             recording_id = payload_field event ''recording_id'';
             error_msg = payload_field event ''error_msg''
         in if coercible room_name \<and> coercible recording_id
               \<and> coercible (js_or error_msg (JStr ''Unknown error''))
            then (writeLog (LogRecordingError room_name recording_id
                     (js_or error_msg (JStr ''Unknown error''))) [], Inr ())
            else ([], Inl TypeError)))"

section \<open>Requests, responses and configuration\<close>

text \<open>
  A request with the two signature headers the receiver reads. Its body is the raw
  bytes on the wire (a \<^verbatim>\<open>string request\<close>) or \<^verbatim>\<open>req.body\<close> as a handler finds
  it (a \<^verbatim>\<open>body request\<close>).
\<close>

record 'b request =
  req_method :: string
  x_daily_signature :: "string option"
  x_signature :: "string option"
  body :: 'b

datatype reply = Json jsval | Page | NoBody

record response =
  status :: nat
  reply :: reply

definition respond :: "nat \<Rightarrow> jsval \<Rightarrow> response" where
  "respond code v = \<lparr>status = code, reply = Json v\<rparr>"

datatype port = PortNumber nat | PortString string

record config =
  PORT :: port
  LOG_FILE :: string
  WEBHOOK_SECRET :: "string option"

section \<open>The webhook routes\<close>

text \<open>
  \<^verbatim>\<open>JSON.parse(payload.toString())\<close> when the payload is a string or a Buffer, the payload
  itself otherwise.
\<close>

definition parse_text :: "platform \<Rightarrow> string \<Rightarrow> js_error + jsval" where
  "parse_text P text = (case json_parse P text of None \<Rightarrow> Inl SyntaxError | Some v \<Rightarrow> Inr v)"

fun parse_event :: "platform \<Rightarrow> body \<Rightarrow> js_error + jsval" where
  "parse_event P (Buffer raw) = parse_text P raw"
| "parse_event P (Value (JStr s)) = parse_text P s"
| "parse_event P (Value v) = Inr v"

text \<open>\<^verbatim>\<open>req.headers['x-daily-signature'] || req.headers['x-signature']\<close>\<close>

definition signature_header :: "'b request \<Rightarrow> string option" where
  "signature_header req = str_or (x_daily_signature req) (x_signature req)"

text \<open>
  The signature gate of both routes: the verifier runs only when a secret is configured
  and a signature header is there; the request passes otherwise.
\<close>

definition check_signature :: "platform \<Rightarrow> config \<Rightarrow> body \<Rightarrow> string option \<Rightarrow> js_error + bool" where
  "check_signature P cfg payload signature =
     (if \<not> falsy (WEBHOOK_SECRET cfg) \<and> \<not> falsy signature
      then verifyWebhookSignature P payload signature (WEBHOOK_SECRET cfg)
      else Inr True)"

text \<open>The \<^verbatim>\<open>switch (event.type)\<close> of both routes.\<close>

definition dispatch :: "platform \<Rightarrow> jsval \<Rightarrow> jsval \<Rightarrow> unit outcome" where
  "dispatch P event ty =
     (if ty = JStr ''recording.started'' then handleRecordingStarted event
      else if ty = JStr ''recording.ready-to-download'' then handleRecordingReady P event
      else if ty = JStr ''recording.error'' then handleRecordingError event
      else if coercible ty then (writeLog (LogReceivedEventType ty) [], Inr ())
      else ([], Inl TypeError))"

definition received :: response where
  "received = respond 200 (JObj [(''status'', JStr ''received'')])"

definition invalid_signature :: response where
  "invalid_signature = respond 401 (JObj [(''error'', JStr ''Invalid signature'')])"

definition internal_server_error :: response where
  "internal_server_error = respond 500 (JObj [(''error'', JStr ''Internal server error'')])"

definition method_not_allowed :: response where
  "method_not_allowed = respond 405 (JObj [(''error'', JStr ''Method not allowed'')])"

definition verified :: "platform \<Rightarrow> response" where
  "verified P = respond 200 (JObj [(''message'', JStr ''Daily.co webhook endpoint verified''),
     (''timestamp'', JStr (date_now P))])"

text \<open>The \<^verbatim>\<open>catch\<close> of both routes: one more log line and the answer 500.\<close>

definition catch_error :: "response outcome \<Rightarrow> log \<times> response" where
  "catch_error r =
     (case r of
        (lg, Inl e) \<Rightarrow> (writeLog (LogWebhookError e) lg, internal_server_error)
      | (lg, Inr res) \<Rightarrow> (lg, res))"

text \<open>\<^verbatim>\<open>app.post('/webhook', ...)\<close>: the body of its \<^verbatim>\<open>try\<close>, then the route.\<close>

definition post_webhook_try :: "platform \<Rightarrow> config \<Rightarrow> body request \<Rightarrow> response outcome" where
  "post_webhook_try P cfg req =
     (let signature = signature_header req;
          payload = body req
      in case check_signature P cfg payload signature of
           Inl e \<Rightarrow> ([], Inl e)
         | Inr isValid \<Rightarrow>
             if \<not> isValid then (writeLog LogInvalidSignature [], Inr invalid_signature)
             else
               (case parse_event P payload of
                  Inl e \<Rightarrow> ([], Inl e)
                | Inr event \<Rightarrow>
                    (case get_prop event ''type'' of
                       Inl e \<Rightarrow> ([], Inl e)
                     | Inr ty \<Rightarrow>
                         (case dispatch P event ty of
                            (lg, Inl e) \<Rightarrow> (lg, Inl e)
                          | (lg, Inr u) \<Rightarrow> (lg, Inr received)))))"

definition post_webhook :: "platform \<Rightarrow> config \<Rightarrow> body request \<Rightarrow> log \<times> response" where
  "post_webhook P cfg req = catch_error (post_webhook_try P cfg req)"

text \<open>
  \<^verbatim>\<open>app.all('/', ...)\<close>: a GET is the provider's verification probe, a POST is an event
  and is handled as at \<^verbatim>\<open>/webhook\<close> but for one more log line before the switch, any
  other method is answered 405.
\<close>

definition all_root_try :: "platform \<Rightarrow> config \<Rightarrow> body request \<Rightarrow> response outcome" where
  "all_root_try P cfg req =
     (if req_method req = ''GET'' then (writeLog LogVerification [], Inr (verified P))
      else if req_method req = ''POST'' then
        (let signature = signature_header req;
             payload = body req
         in case check_signature P cfg payload signature of
              Inl e \<Rightarrow> ([], Inl e)
            | Inr isValid \<Rightarrow>
                if \<not> isValid then (writeLog LogInvalidSignature [], Inr invalid_signature)
                else
                  (case parse_event P payload of
                     Inl e \<Rightarrow> ([], Inl e)
                   | Inr event \<Rightarrow>
                       (case get_prop event ''type'' of
                          Inl e \<Rightarrow> ([], Inl e)
                        | Inr ty \<Rightarrow>
                            if \<not> coercible ty then ([], Inl TypeError)
                            else
                              (case dispatch P event ty of
                                 (lg, Inl e) \<Rightarrow> (writeLog (LogEventReceived ty) [] @ lg, Inl e)
                               | (lg, Inr u) \<Rightarrow>
                                   (writeLog (LogEventReceived ty) [] @ lg, Inr received)))))
      else ([], Inr method_not_allowed))"

definition all_root :: "platform \<Rightarrow> config \<Rightarrow> body request \<Rightarrow> log \<times> response" where
  "all_root P cfg req = catch_error (all_root_try P cfg req)"

text \<open>\<^verbatim>\<open>app.get('/webhook', ...)\<close>\<close>

definition get_webhook :: "platform \<Rightarrow> log \<times> response" where
  "get_webhook P = (writeLog LogGetVerification [], verified P)"

section \<open>Body-parsing middleware and routing\<close>

text \<open>
  \<^verbatim>\<open>app.use('/webhook', express.raw({ type: 'application/json' }))\<close> and then
  \<^verbatim>\<open>app.use(express.json())\<close>, for a request of content type \<^verbatim>\<open>application/json\<close> in
  UTF-8 that frames its body (with a \<^verbatim>\<open>Content-Length\<close> or a \<^verbatim>\<open>Transfer-Encoding\<close>, as
  a client's POST does). Both parsers end a request whose body is over their limit of
  100 kB with status 413, before any route. Under \<^verbatim>\<open>/webhook\<close> the raw parser leaves the
  bytes in a Buffer, an empty one for an empty body, and the JSON parser skips a body
  that is already read. Everywhere else the JSON parser decodes the bytes, which drops a
  byte order mark; it takes an empty text for the empty object, and in its strict mode
  accepts a text whose first character after white space opens an object or an array
  and that \<^verbatim>\<open>JSON.parse\<close> accepts; it ends the request with status 400 otherwise.
\<close>

definition too_large :: "string \<Rightarrow> bool" where
  "too_large raw = (102400 < length raw)"

definition express_raw :: "string \<Rightarrow> body option" where
  "express_raw raw = (if too_large raw then None else Some (Buffer raw))"

definition strip_bom :: "string \<Rightarrow> string" where
  "strip_bom raw = (if take 3 raw = [CHR 0xEF, CHR 0xBB, CHR 0xBF] then drop 3 raw else raw)"

definition is_space :: "char \<Rightarrow> bool" where
  "is_space c = (c = CHR '' '' \<or> c = CHR 0x09 \<or> c = CHR 0x0A \<or> c = CHR 0x0D)"

definition firstchar :: "string \<Rightarrow> char option" where
  "firstchar text = (case dropWhile is_space text of [] \<Rightarrow> None | c # cs \<Rightarrow> Some c)"

definition express_json :: "platform \<Rightarrow> string \<Rightarrow> body option" where
  "express_json P raw =
     (if too_large raw then None
      else if raw = [] then Some (Value (JObj []))
      else
        (let text = strip_bom raw
         in if text = [] then Some (Value (JObj []))
            else if firstchar text = Some (CHR ''{'') \<or> firstchar text = Some (CHR ''['')
            then (case json_parse P text of None \<Rightarrow> None | Some v \<Rightarrow> Some (Value v))
            else None))"

definition with_body :: "string request \<Rightarrow> body \<Rightarrow> body request" where
  "with_body req b =
     \<lparr>req_method = req_method req, x_daily_signature = x_daily_signature req,
      x_signature = x_signature req, body = b\<rparr>"

datatype path = RootPath | WebhookPath

text \<open>The answers Express gives by itself: an error of a parser, no route, \<^verbatim>\<open>OPTIONS\<close>.\<close>

definition payload_too_large :: response where
  "payload_too_large = \<lparr>status = 413, reply = Page\<rparr>"

definition bad_request :: response where
  "bad_request = \<lparr>status = 400, reply = Page\<rparr>"

definition not_found :: response where
  "not_found = \<lparr>status = 404, reply = Page\<rparr>"

definition allowed_methods :: response where
  "allowed_methods = \<lparr>status = 200, reply = Page\<rparr>"

text \<open>
  The routes under \<^verbatim>\<open>/webhook\<close>: \<^verbatim>\<open>app.post\<close>, and \<^verbatim>\<open>app.get\<close>, which Express also gives
  a \<^verbatim>\<open>HEAD\<close>; an \<^verbatim>\<open>OPTIONS\<close> is answered with the methods of the two routes, any other
  method finds no route.
\<close>

definition webhook_routes :: "platform \<Rightarrow> config \<Rightarrow> body request \<Rightarrow> log \<times> response" where
  "webhook_routes P cfg req =
     (if req_method req = ''POST'' then post_webhook P cfg req
      else if req_method req = ''GET'' \<or> req_method req = ''HEAD'' then get_webhook P
      else if req_method req = ''OPTIONS'' then ([], allowed_methods)
      else ([], not_found))"

text \<open>The response to a \<^verbatim>\<open>HEAD\<close> goes out without its body.\<close>

definition send :: "string \<Rightarrow> log \<times> response \<Rightarrow> log \<times> response" where
  "send m r = (if m = ''HEAD'' then (fst r, (snd r)\<lparr>reply := NoBody\<rparr>) else r)"

text \<open>A request on the wire, through the middleware, to the route of its path.\<close>

definition deliver :: "platform \<Rightarrow> config \<Rightarrow> path \<Rightarrow> string request \<Rightarrow> log \<times> response" where
  "deliver P cfg p req =
     send (req_method req)
       (case p of
          WebhookPath \<Rightarrow>
            (case express_raw (body req) of
               None \<Rightarrow> ([], payload_too_large)
             | Some b \<Rightarrow> webhook_routes P cfg (with_body req b))
        | RootPath \<Rightarrow>
            (case express_json P (body req) of
               None \<Rightarrow> ([], if too_large (body req) then payload_too_large else bad_request)
             | Some b \<Rightarrow> all_root P cfg (with_body req b)))"

section \<open>Startup\<close>

text \<open>
  \<^verbatim>\<open>process.env\<close> once \<^verbatim>\<open>dotenv.config()\<close> has run, and what of the host the startup of
  the receiver depends on.
\<close>

record environment =
  DAILY_API_KEY :: "string option"
  DAILY_WEBHOOK_SECRET :: "string option"
  WEBHOOK_PORT :: "string option"
  LOG_FILE_var :: "string option"

record host =
  log_dir_exists :: bool
  mkdir_succeeds :: bool
  listen_succeeds :: bool

datatype startup = Crashed | Exited nat | Listening config

definition read_config :: "environment \<Rightarrow> config" where
  "read_config env =
     \<lparr>PORT = (if falsy (WEBHOOK_PORT env) then PortNumber 3001
              else PortString (str_of (WEBHOOK_PORT env))),
      LOG_FILE = (if falsy (LOG_FILE_var env) then ''./recording_events.log''
                  else str_of (LOG_FILE_var env)),
      WEBHOOK_SECRET = DAILY_WEBHOOK_SECRET env\<rparr>"

text \<open>
  The top level of \<^verbatim>\<open>webhook-server.js\<close>: read the configuration, make the directory of
  the log file when it is not there, register the routes, listen. An exception of
  \<^verbatim>\<open>mkdirSync\<close> or an error of \<^verbatim>\<open>listen\<close> is not handled and ends the process.
\<close>

definition webhook_server_startup :: "environment \<Rightarrow> host \<Rightarrow> startup" where
  "webhook_server_startup env h =
     (if \<not> log_dir_exists h \<and> \<not> mkdir_succeeds h then Crashed
      else if listen_succeeds h then Listening (read_config env)
      else Crashed)"

text \<open>
  The top level of the command-line script \<^verbatim>\<open>daily-test.js\<close>: without a \<^verbatim>\<open>.env\<close> file it
  writes a template and exits with status 1, without an API key it exits with status
  1, otherwise it goes on to its commands.
\<close>

datatype cli_startup = CliExited nat | CliContinues

definition daily_test_startup :: "bool \<Rightarrow> environment \<Rightarrow> cli_startup" where
  "daily_test_startup env_file_exists env =
     (if \<not> env_file_exists then CliExited 1
      else if falsy (DAILY_API_KEY env) then CliExited 1
      else CliContinues)"

section \<open>Well-formed recording payloads\<close>

fun is_string :: "jsval \<Rightarrow> bool" where
  "is_string (JStr s) = True"
| "is_string v = False"




section \<open>A sample platform\<close>

text \<open>
  For the examples at concrete inputs: a secret, some request bodies, and a platform that
  is a table of the library's answers at these inputs, namely the HMAC-SHA256 of each
  body under the secret and the value \<^verbatim>\<open>JSON.parse\<close> gives it; both lookups of the
  provider fail. Outside the table the answers are arbitrary and no example reads them.
\<close>

definition demo_secret :: string where
  "demo_secret = ''whsec_demo''"

definition body_unknown :: string where
  \<open>body_unknown = ''{"type":"meeting.ended"}''\<close>

definition body_ready :: string where
  \<open>body_ready = ''{"type":"recording.ready-to-download","payload":{"room_name":"demo","recording_id":"r1","duration":90,"start_ts":1700000000}}''\<close>

definition body_no_payload :: string where
  \<open>body_no_payload = ''{"type":"recording.error"}''\<close>

definition body_no_type :: string where
  "body_no_type = ''{}''"

definition body_not_json :: string where
  "body_not_json = ''not json''"

definition event_unknown :: jsval where
  "event_unknown = JObj [(''type'', JStr ''meeting.ended'')]"

definition event_ready :: jsval where
  "event_ready = JObj [(''type'', JStr ''recording.ready-to-download''),
     (''payload'', JObj [(''room_name'', JStr ''demo''), (''recording_id'', JStr ''r1''),
        (''duration'', JNum 90), (''start_ts'', JNum 1700000000)])]"

definition event_no_payload :: jsval where
  "event_no_payload = JObj [(''type'', JStr ''recording.error'')]"

definition demo_hmac :: "string \<Rightarrow> string \<Rightarrow> digest" where
  "demo_hmac key data =
     Digest (buffer_from_hex
       (if key = demo_secret \<and> data = body_unknown
        then ''50b1bd51fd6dbe6c37a692ab2bf1cce5c28c376089c8333183c676c978df1723''
        else if key = demo_secret \<and> data = body_ready
        then ''54427976c8913af982e09ae20ae15148ceeeb1e5af368d1f03683912dd511a3c''
        else if key = demo_secret \<and> data = body_no_payload
        then ''6f35f8ac658efeaae1736f042f150582ec00d93337f0972178c8bd29cb0d458c''
        else if key = demo_secret \<and> data = body_no_type
        then ''96803c7730ec14b18f52395fc16ad1688c77ea25a15be59951d6940c6441d9e8''
        else if key = demo_secret \<and> data = body_not_json
        then ''2e7b9106fe835f99ac5755af5c0d14d7d81cd864f298c057812eb98dddb9308b''
        else replicate 64 (CHR ''0'')))"

definition demo_parse :: "string \<Rightarrow> jsval option" where
  "demo_parse text =
     (if text = body_unknown then Some event_unknown
      else if text = body_ready then Some event_ready
      else if text = body_no_payload then Some event_no_payload
      else if text = body_no_type then Some (JObj [])
      else None)"

definition demo_platform :: platform where
  "demo_platform =
     \<lparr>hmac_sha256 = demo_hmac, json_parse = demo_parse, axios_get = (\<lambda>c. Rejected),
      date_now = ''2024-01-01T00:00:00.000Z''\<rparr>"

definition demo_config :: config where
  "demo_config = \<lparr>PORT = PortNumber 3001, LOG_FILE = ''./recording_events.log'',
     WEBHOOK_SECRET = Some demo_secret\<rparr>"

definition open_config :: config where
  "open_config = \<lparr>PORT = PortNumber 3001, LOG_FILE = ''./recording_events.log'',
     WEBHOOK_SECRET = None\<rparr>"

text \<open>The signature headers of the sample bodies under the sample secret.\<close>

definition sig_unknown :: string where
  "sig_unknown = ''sha256=50b1bd51fd6dbe6c37a692ab2bf1cce5c28c376089c8333183c676c978df1723''"



definition sig_no_type :: string where
  "sig_no_type = ''sha256=96803c7730ec14b18f52395fc16ad1688c77ea25a15be59951d6940c6441d9e8''"

definition sig_not_json :: string where
  "sig_not_json = ''sha256=2e7b9106fe835f99ac5755af5c0d14d7d81cd864f298c057812eb98dddb9308b''"

definition sig_wrong :: string where
  "sig_wrong = ''sha256=0000000000000000000000000000000000000000000000000000000000000000''"

definition post :: "string option \<Rightarrow> 'b \<Rightarrow> 'b request" where
  "post sig b = \<lparr>req_method = ''POST'', x_daily_signature = sig, x_signature = None, body = b\<rparr>"

section \<open>Facts about hexadecimal buffers\<close>

lemma upt_16: "[0..<16] = [0, 1, 2, 3, 4, 5, 6, 7, 8, 9, 10, 11, 12, 13, 14, 15]"
  by (simp add: upt_rec [of _ "numeral _"] upt_rec [of 0])

lemma unhex_table: "list_all (\<lambda>n. unhex (hex_digit n) = Some n) [0..<16]"
  by (simp add: upt_16 unhex_def hex_digit_def)

lemma unhex_hex_digit: "n < 16 \<Longrightarrow> unhex (hex_digit n) = Some n"
  using unhex_table by (simp add: list_all_iff)

lemma buffer_from_hex_of_bytes: "buffer_from_hex (hex_of_bytes bs) = bs"
proof (induction bs)
  case Nil
  show ?case by (simp add: hex_of_bytes_def)
next
  case (Cons b bs)
  have hi: "unhex (hex_digit (unat b div 16)) = Some (unat b div 16)"
  proof (rule unhex_hex_digit)
    have "unat b < 256" using unsigned_less [of b, where ?'a = nat] by simp
    then show "unat b div 16 < 16" by simp
  qed
  have lo: "unhex (hex_digit (unat b mod 16)) = Some (unat b mod 16)"
    by (rule unhex_hex_digit) simp
  have "word_of_nat (16 * (unat b div 16) + unat b mod 16) = b"
    by simp
  with hi lo Cons show ?case
    by (simp add: hex_of_bytes_def)
qed

lemma length_digest_bytes: "length (digest_bytes d) = 32"
  using digest_bytes [of d] by simp

lemma digest_bytes_Digest: "length bs = 32 \<Longrightarrow> digest_bytes (Digest bs) = bs"
  by (simp add: Digest_inverse)

lemma hex_digit_in: "hex_digit n \<in> set ''0123456789abcdef''"
  unfolding hex_digit_def by (rule nth_mem) simp

lemma hex_digit_not_s: "hex_digit n \<noteq> CHR ''s''"
  using hex_digit_in [of n] by auto

section \<open>Facts about the verifier\<close>

lemma hmac_hex_untagged: "actual_signature (hmac_hex P key data) = hmac_hex P key data"
proof -
  obtain b bs where "digest_bytes (hmac_sha256 P key data) = b # bs"
    using length_digest_bytes [of "hmac_sha256 P key data"]
    by (cases "digest_bytes (hmac_sha256 P key data)") auto
  then show ?thesis
    by (simp add: actual_signature_def hmac_hex_def hex_of_bytes_def startsWith_def hex_digit_not_s)
qed

lemma actual_signature_tagged: "actual_signature (''sha256='' @ s) = s"
  by (simp add: actual_signature_def startsWith_def)

lemma hmac_hex_not_empty: "hmac_hex P key data \<noteq> []"
  using length_digest_bytes [of "hmac_sha256 P key data"]
  by (cases "digest_bytes (hmac_sha256 P key data)") (auto simp: hmac_hex_def hex_of_bytes_def)

text \<open>
  With a secret, a signature and a payload that can be hashed, the verifier compares
  when the signature decodes to 32 bytes and throws otherwise.
\<close>

lemma verify_on_text:
  assumes "\<not> falsy secret" and "\<not> falsy signature" and "hmac_data payload = Some data"
  shows "verifyWebhookSignature P payload signature secret =
     (if length (buffer_from_hex (actual_signature (str_of signature))) = 32
      then Inr (digest_bytes (hmac_sha256 P (str_of secret) data)
                  = buffer_from_hex (actual_signature (str_of signature)))
      else Inl RangeError)"
  using assms
  by (simp add: verifyWebhookSignature_def hmac_hex_def buffer_from_hex_of_bytes
      timingSafeEqual_def length_digest_bytes)

lemma verify_falsy:
  "falsy secret \<or> falsy signature \<Longrightarrow> verifyWebhookSignature P payload signature secret = Inr False"
  by (simp add: verifyWebhookSignature_def)

lemma verify_expected:
  assumes "S \<noteq> []" and "sig \<noteq> []" and "hmac_data payload = Some data"
    and "actual_signature sig = hmac_hex P S data"
  shows "verifyWebhookSignature P payload (Some sig) (Some S) = Inr True"
  using assms
  by (simp add: verify_on_text falsy_def str_of_def)
    (simp add: hmac_hex_def buffer_from_hex_of_bytes length_digest_bytes)

section \<open>Facts about the routes\<close>

lemma check_signature_skipped:
  "falsy (WEBHOOK_SECRET cfg) \<or> falsy signature \<Longrightarrow> check_signature P cfg payload signature = Inr True"
  by (auto simp: check_signature_def)

lemma post_webhook_try_passed:
  assumes "check_signature P cfg (body req) (signature_header req) = Inr True"
    and "parse_event P (body req) = Inr event"
    and "get_prop event ''type'' = Inr ty"
  shows "post_webhook_try P cfg req =
     (case dispatch P event ty of
        (lg, Inl e) \<Rightarrow> (lg, Inl e)
      | (lg, Inr u) \<Rightarrow> (lg, Inr received))"
  using assms by (simp add: post_webhook_try_def)

lemma all_root_try_passed:
  assumes "req_method req = ''POST''"
    and "check_signature P cfg (body req) (signature_header req) = Inr True"
    and "parse_event P (body req) = Inr event"
    and "get_prop event ''type'' = Inr ty"
  shows "all_root_try P cfg req =
     (if coercible ty
      then (case dispatch P event ty of
              (lg, Inl e) \<Rightarrow> (LogEventReceived ty # lg, Inl e)
            | (lg, Inr u) \<Rightarrow> (LogEventReceived ty # lg, Inr received))
      else ([], Inl TypeError))"
  using assms by (simp add: all_root_try_def)

lemma dispatch_unknown:
  assumes "t \<noteq> ''recording.started''" and "t \<noteq> ''recording.ready-to-download''"
    and "t \<noteq> ''recording.error''"
  shows "dispatch P event (JStr t) = ([LogReceivedEventType (JStr t)], Inr ())"
  using assms by (simp add: dispatch_def)


lemma post_webhook_try_parse_error:
  assumes "check_signature P cfg (body req) (signature_header req) = Inr True"
    and "parse_event P (body req) = Inl e"
  shows "post_webhook_try P cfg req = ([], Inl e)"
  using assms by (simp add: post_webhook_try_def)

lemma with_body_fields:
  "body (with_body req b) = b" "signature_header (with_body req b) = signature_header req"
  "req_method (with_body req b) = req_method req"
  by (simp_all add: with_body_def signature_header_def)

lemma express_json_parsed:
  "raw \<noteq> [] \<Longrightarrow> strip_bom raw = raw \<Longrightarrow> express_json P raw = Some (Value event)
    \<Longrightarrow> json_parse P raw = Some event"
  by (auto simp: express_json_def split: if_splits option.splits)

lemma express_json_within_limit: "express_json P raw = Some b \<Longrightarrow> \<not> too_large raw"
  by (auto simp: express_json_def split: if_splits)

lemma deliver_post:
  assumes "req_method req = ''POST''" and "\<not> too_large (body req)"
  shows "deliver P cfg WebhookPath req = post_webhook P cfg (with_body req (Buffer (body req)))"
    and "express_json P (body req) = Some b
      \<Longrightarrow> deliver P cfg RootPath req = all_root P cfg (with_body req b)"
  using assms
  by (simp_all add: deliver_def send_def express_raw_def webhook_routes_def with_body_def)

lemma parse_event_value: "\<not> is_string v \<Longrightarrow> parse_event P (Value v) = Inr v"
  by (cases v) auto

lemma dispatch_not_coercible: "\<not> coercible ty \<Longrightarrow> dispatch P event ty = ([], Inl TypeError)"
  by (cases ty) (auto simp: dispatch_def)

lemma post_webhook_gate_only:
  "check_signature P cfg (body req) (signature_header req)
     = check_signature P cfg' (body req) (signature_header req)
   \<Longrightarrow> post_webhook P cfg req = post_webhook P cfg' req"
  by (simp add: post_webhook_def post_webhook_try_def)

lemma check_signature_digest:
  assumes "buffer_from_hex (actual_signature (str_of signature))
      = digest_bytes (hmac_sha256 P (str_of (WEBHOOK_SECRET cfg)) raw)"
  shows "check_signature P cfg (Buffer raw) signature = Inr True"
proof (cases "falsy (WEBHOOK_SECRET cfg) \<or> falsy signature")
  case True
  then show ?thesis by (rule check_signature_skipped)
next
  case False
  then show ?thesis
    using assms by (simp add: check_signature_def verify_on_text length_digest_bytes)
qed

section \<open>Facts about the handlers\<close>







section \<open>Facts about the sample platform\<close>

lemmas demo_defs = demo_platform_def demo_hmac_def demo_parse_def demo_config_def open_config_def
  demo_secret_def body_unknown_def body_ready_def body_no_payload_def body_no_type_def
  body_not_json_def post_def signature_header_def str_or_def falsy_def str_of_def

lemma demo_gate_unknown:
  "check_signature demo_platform demo_config (Buffer body_unknown) (Some sig_unknown) = Inr True"
  by (simp add: check_signature_def verify_on_text demo_defs sig_unknown_def
      actual_signature_def startsWith_def digest_bytes_Digest unhex_def)



lemma demo_gate_no_type:
  "check_signature demo_platform demo_config (Buffer body_no_type) (Some sig_no_type) = Inr True"
  by (simp add: check_signature_def verify_on_text demo_defs sig_no_type_def
      actual_signature_def startsWith_def digest_bytes_Digest unhex_def)

lemma demo_gate_not_json:
  "check_signature demo_platform demo_config (Buffer body_not_json) (Some sig_not_json) = Inr True"
  by (simp add: check_signature_def verify_on_text demo_defs sig_not_json_def
      actual_signature_def startsWith_def digest_bytes_Digest unhex_def)

lemma post_fields:
  "body (post sig b) = b" "signature_header (post (Some (c # cs)) b) = Some (c # cs)"
  "signature_header (post None b) = None" "req_method (post sig b) = ''POST''"
  by (simp_all add: post_def signature_header_def str_or_def falsy_def)

lemma demo_express_json_unknown: "express_json demo_platform body_unknown = Some (Value event_unknown)"
  by (simp add: express_json_def too_large_def strip_bom_def firstchar_def is_space_def demo_defs)

section \<open>The claims\<close>

text \<open>
  C1. The specification says that the verifier returns \<^verbatim>\<open>false\<close> and never throws on a
  missing header, a missing secret, a signature that is not hexadecimal and a signature
  of the wrong length. The first two hold. On the other two the code throws: the
  signature \<^verbatim>\<open>abcd\<close> decodes to two bytes, \<^verbatim>\<open>not-hex\<close> decodes to none, the digest has
  32, and \<^verbatim>\<open>crypto.timingSafeEqual\<close> throws a RangeError on buffers of different
  lengths. At the route the exception is caught and answered 500, not 401.
\<close>

theorem C1_verifier_throws_on_wrong_length:
  "verifyWebhookSignature P payload None secret = Inr False
   \<and> verifyWebhookSignature P payload signature None = Inr False
   \<and> verifyWebhookSignature P (Buffer raw) (Some ''abcd'') (Some ''s'') = Inl RangeError
   \<and> verifyWebhookSignature P (Buffer raw) (Some ''not-hex'') (Some ''s'') = Inl RangeError
   \<and> post_webhook P \<lparr>PORT = port, LOG_FILE = file, WEBHOOK_SECRET = Some ''s''\<rparr>
         (post (Some ''abcd'') (Buffer raw))
       = ([LogWebhookError RangeError], internal_server_error)"
proof (intro conjI)
  show "verifyWebhookSignature P payload None secret = Inr False"
    by (simp add: verify_falsy falsy_def)
  show "verifyWebhookSignature P payload signature None = Inr False"
    by (simp add: verify_falsy falsy_def)
  show short: "verifyWebhookSignature P (Buffer raw) (Some ''abcd'') (Some ''s'') = Inl RangeError"
    by (simp add: verify_on_text falsy_def str_of_def actual_signature_def startsWith_def unhex_def)
  show "verifyWebhookSignature P (Buffer raw) (Some ''not-hex'') (Some ''s'') = Inl RangeError"
    by (simp add: verify_on_text falsy_def str_of_def actual_signature_def startsWith_def unhex_def)
  show "post_webhook P \<lparr>PORT = port, LOG_FILE = file, WEBHOOK_SECRET = Some ''s''\<rparr>
         (post (Some ''abcd'') (Buffer raw))
       = ([LogWebhookError RangeError], internal_server_error)"
    using short
    by (simp add: post_webhook_def post_webhook_try_def check_signature_def post_fields falsy_def
        catch_error_def)
qed

text \<open>
  C2. With a signing secret configured, a POST whose signature is bad or whose signature
  header is missing is to be answered 401, with a line of the failure in the log and no
  further processing. For a signature of 32 bytes that is not the HMAC of the body the
  route does so. For a request without the header it does not: the gate of the route is
  \<^verbatim>\<open>if (WEBHOOK_SECRET && signature)\<close>, so the verifier, which itself refuses a missing
  signature, is never asked, and the request is classified, logged and acknowledged
  with 200.
\<close>

theorem C2_missing_header_is_not_rejected:
  "WEBHOOK_SECRET demo_config = Some demo_secret
   \<and> post_webhook demo_platform demo_config (post (Some sig_wrong) (Buffer body_unknown))
       = ([LogInvalidSignature], invalid_signature)
   \<and> status invalid_signature = 401
   \<and> verifyWebhookSignature demo_platform (Buffer body_unknown) None (Some demo_secret) = Inr False
   \<and> signature_header (post None (Buffer body_unknown)) = None
   \<and> post_webhook demo_platform demo_config (post None (Buffer body_unknown))
       = ([LogReceivedEventType (JStr ''meeting.ended'')], received)
   \<and> status received = 200"
proof (intro conjI)
  show "WEBHOOK_SECRET demo_config = Some demo_secret"
    by (simp add: demo_config_def)
  have "check_signature demo_platform demo_config (Buffer body_unknown) (Some sig_wrong) = Inr False"
    by (simp add: check_signature_def verify_on_text demo_defs sig_wrong_def
        actual_signature_def startsWith_def digest_bytes_Digest unhex_def)
  then show "post_webhook demo_platform demo_config (post (Some sig_wrong) (Buffer body_unknown))
      = ([LogInvalidSignature], invalid_signature)"
    by (simp add: post_webhook_def post_webhook_try_def post_fields sig_wrong_def catch_error_def)
  show "status invalid_signature = 401"
    by (simp add: invalid_signature_def respond_def)
  show "verifyWebhookSignature demo_platform (Buffer body_unknown) None (Some demo_secret) = Inr False"
    by (simp add: verify_falsy falsy_def)
  show "signature_header (post None (Buffer body_unknown)) = None"
    by (simp add: post_fields)
  show "post_webhook demo_platform demo_config (post None (Buffer body_unknown))
      = ([LogReceivedEventType (JStr ''meeting.ended'')], received)"
    by (simp add: post_webhook_def post_webhook_try_def check_signature_def dispatch_def
        catch_error_def parse_text_def demo_defs event_unknown_def)
  show "status received = 200"
    by (simp add: received_def respond_def)
qed

text \<open>
  C3. The specification says that a POST behaves the same at \<^verbatim>\<open>/\<close> and at
  \<^verbatim>\<open>/webhook\<close>. The route at \<^verbatim>\<open>/\<close> writes one more log line
  (\<^verbatim>\<open>WEBHOOK EVENT RECEIVED\<close>) before the switch. Amended: for a POST whose body is not
  empty, has no byte order mark and passes the strict JSON parser, when no secret is
  configured or no signature header is there, both paths give the same response, and
  the log of \<^verbatim>\<open>/\<close> is the log of \<^verbatim>\<open>/webhook\<close> after one line with the event type (no
  line more when the type cannot be printed); at \<^verbatim>\<open>/webhook\<close> the HMAC is taken over the
  raw bytes of the request, so that a request signed with the HMAC of its raw body is
  handled as when no secret is configured. The parser only yields objects and arrays,
  which is what the hypotheses on the event say.
\<close>

theorem C3_paths_agree_without_signature:
  assumes "req_method req = ''POST''" and "body req \<noteq> []" and "strip_bom (body req) = body req"
    and "express_json P (body req) = Some (Value event)" and "\<not> is_string event"
    and "get_prop event ''type'' = Inr ty"
  shows "(falsy (WEBHOOK_SECRET cfg) \<or> falsy (signature_header req) \<longrightarrow>
            snd (deliver P cfg RootPath req) = snd (deliver P cfg WebhookPath req)
            \<and> fst (deliver P cfg RootPath req)
                = (if coercible ty then [LogEventReceived ty] else [])
                  @ fst (deliver P cfg WebhookPath req))
       \<and> (buffer_from_hex (actual_signature (str_of (signature_header req)))
             = digest_bytes (hmac_sha256 P (str_of (WEBHOOK_SECRET cfg)) (body req)) \<longrightarrow>
            deliver P cfg WebhookPath req
              = deliver P (cfg\<lparr>WEBHOOK_SECRET := None\<rparr>) WebhookPath req)"
proof (intro conjI impI)
  let ?w = "with_body req (Buffer (body req))"
  let ?r = "with_body req (Value event)"
  have small: "\<not> too_large (body req)"
    using assms(4) by (rule express_json_within_limit)
  have dw: "deliver P c WebhookPath req = post_webhook P c ?w" for c
    using assms(1) small by (rule deliver_post(1))
  have dr: "deliver P cfg RootPath req = all_root P cfg ?r"
    using assms(1) small assms(4) by (rule deliver_post(2))
  have pw: "parse_event P (body ?w) = Inr event"
    using express_json_parsed [OF assms(2,3,4)] by (simp add: with_body_fields parse_text_def)
  have pr: "parse_event P (body ?r) = Inr event"
    using assms(5) by (simp add: with_body_fields parse_event_value)
  {
    assume skip: "falsy (WEBHOOK_SECRET cfg) \<or> falsy (signature_header req)"
    then have gw: "check_signature P cfg (body ?w) (signature_header ?w) = Inr True"
      and gr: "check_signature P cfg (body ?r) (signature_header ?r) = Inr True"
      by (simp_all add: with_body_fields check_signature_skipped)
    obtain lg r where d: "dispatch P event ty = (lg, r)"
      by (cases "dispatch P event ty")
    have tw: "post_webhook_try P cfg ?w =
        (case r of Inl e \<Rightarrow> (lg, Inl e) | Inr u \<Rightarrow> (lg, Inr received))"
      using post_webhook_try_passed [OF gw pw assms(6)] d by simp
    have tr: "all_root_try P cfg ?r =
        (if coercible ty
         then (case r of Inl e \<Rightarrow> (LogEventReceived ty # lg, Inl e)
                 | Inr u \<Rightarrow> (LogEventReceived ty # lg, Inr received))
         else ([], Inl TypeError))"
      using all_root_try_passed [OF _ gr pr assms(6)] assms(1) d
      by (simp add: with_body_fields)
    have nc: "\<not> coercible ty \<Longrightarrow> lg = [] \<and> r = Inl TypeError"
      using dispatch_not_coercible [of ty P event] d by simp
    show "snd (deliver P cfg RootPath req) = snd (deliver P cfg WebhookPath req)"
      using nc
      by (cases r) (auto simp: dw dr post_webhook_def all_root_def tw tr catch_error_def)
    show "fst (deliver P cfg RootPath req)
        = (if coercible ty then [LogEventReceived ty] else []) @ fst (deliver P cfg WebhookPath req)"
      using nc
      by (cases r) (auto simp: dw dr post_webhook_def all_root_def tw tr catch_error_def writeLog_def)
  }
  {
    assume "buffer_from_hex (actual_signature (str_of (signature_header req)))
        = digest_bytes (hmac_sha256 P (str_of (WEBHOOK_SECRET cfg)) (body req))"
    then have "check_signature P cfg (body ?w) (signature_header ?w) = Inr True"
      by (simp add: with_body_fields check_signature_digest)
    moreover have "check_signature P (cfg\<lparr>WEBHOOK_SECRET := None\<rparr>) (body ?w) (signature_header ?w)
        = Inr True"
      by (simp add: check_signature_skipped falsy_def)
    ultimately show "deliver P cfg WebhookPath req
        = deliver P (cfg\<lparr>WEBHOOK_SECRET := None\<rparr>) WebhookPath req"
      by (simp add: dw post_webhook_gate_only)
  }
qed

theorem C3_witness:
  "express_json demo_platform body_unknown = Some (Value event_unknown)
   \<and> snd (deliver demo_platform open_config RootPath (post None body_unknown))
       = snd (deliver demo_platform open_config WebhookPath (post None body_unknown))
   \<and> fst (deliver demo_platform open_config RootPath (post None body_unknown))
       = LogEventReceived (JStr ''meeting.ended'')
         # fst (deliver demo_platform open_config WebhookPath (post None body_unknown))
   \<and> deliver demo_platform demo_config WebhookPath (post (Some sig_unknown) body_unknown)
       = deliver demo_platform open_config WebhookPath (post (Some sig_unknown) body_unknown)"
proof -
  have ne: "body_unknown \<noteq> []" and bom: "strip_bom body_unknown = body_unknown"
    by (simp_all add: body_unknown_def strip_bom_def)
  have ty: "get_prop event_unknown ''type'' = Inr (JStr ''meeting.ended'')"
    and st: "\<not> is_string event_unknown"
    by (simp_all add: event_unknown_def)
  have o: "demo_config\<lparr>WEBHOOK_SECRET := None\<rparr> = open_config"
    by (simp add: demo_config_def open_config_def)
  have sg: "buffer_from_hex (actual_signature sig_unknown)
      = digest_bytes (hmac_sha256 demo_platform demo_secret body_unknown)"
    by (simp add: demo_defs sig_unknown_def actual_signature_def startsWith_def digest_bytes_Digest unhex_def)
  have "falsy (WEBHOOK_SECRET open_config)"
    by (simp add: open_config_def falsy_def)
  with C3_paths_agree_without_signature [of "post None body_unknown" demo_platform event_unknown
      "JStr ''meeting.ended''" open_config]
    C3_paths_agree_without_signature [of "post (Some sig_unknown) body_unknown" demo_platform
      event_unknown "JStr ''meeting.ended''" demo_config]
    ne bom ty st o sg demo_express_json_unknown
  show ?thesis
    by (simp add: post_fields sig_unknown_def str_of_def demo_config_def)
qed

text \<open>
  The sample request at both paths: without a secret the logs differ by one line; with
  the secret and the right signature, \<^verbatim>\<open>/webhook\<close> acknowledges the event and \<^verbatim>\<open>/\<close>,
  where the verifier is given the parsed object, answers 500.
\<close>

theorem C3_counterexample:
  "deliver demo_platform open_config RootPath (post None body_unknown)
     = ([LogEventReceived (JStr ''meeting.ended''), LogReceivedEventType (JStr ''meeting.ended'')],
        received)
   \<and> deliver demo_platform open_config WebhookPath (post None body_unknown)
     = ([LogReceivedEventType (JStr ''meeting.ended'')], received)
   \<and> deliver demo_platform demo_config RootPath (post (Some sig_unknown) body_unknown)
     = ([LogWebhookError TypeError], internal_server_error)
   \<and> deliver demo_platform demo_config WebhookPath (post (Some sig_unknown) body_unknown)
     = ([LogReceivedEventType (JStr ''meeting.ended'')], received)"
proof (intro conjI)
  have ty: "get_prop event_unknown ''type'' = Inr (JStr ''meeting.ended'')"
    by (simp add: event_unknown_def)
  have d: "dispatch demo_platform event_unknown (JStr ''meeting.ended'')
      = ([LogReceivedEventType (JStr ''meeting.ended'')], Inr ())"
    by (simp add: dispatch_unknown)
  have pb: "parse_text demo_platform body_unknown = Inr event_unknown"
    by (simp add: parse_text_def demo_defs)
  have pv: "parse_event demo_platform (Value event_unknown) = Inr event_unknown"
    by (simp add: event_unknown_def)
  have small: "\<not> too_large (body (post sg body_unknown))" for sg
    by (simp add: post_fields too_large_def body_unknown_def)
  have m: "req_method (post sg body_unknown) = ''POST''" for sg
    by (simp add: post_fields)
  have dr: "deliver demo_platform c RootPath (post sg body_unknown)
      = all_root demo_platform c (with_body (post sg body_unknown) (Value event_unknown))" for c sg
    using m small by (rule deliver_post(2)) (simp add: post_fields demo_express_json_unknown)
  have dw: "deliver demo_platform c WebhookPath (post sg body_unknown)
      = post_webhook demo_platform c (with_body (post sg body_unknown) (Buffer body_unknown))" for c sg
    using deliver_post(1) [OF m small] by (simp add: post_fields)
  show "deliver demo_platform open_config RootPath (post None body_unknown)
     = ([LogEventReceived (JStr ''meeting.ended''), LogReceivedEventType (JStr ''meeting.ended'')],
        received)"
    by (simp add: dr all_root_def all_root_try_def
        with_body_fields post_fields check_signature_skipped open_config_def falsy_def pv ty d
        catch_error_def)
  show "deliver demo_platform open_config WebhookPath (post None body_unknown)
     = ([LogReceivedEventType (JStr ''meeting.ended'')], received)"
    by (simp add: dw post_webhook_def post_webhook_try_def
        with_body_fields post_fields check_signature_skipped open_config_def falsy_def pb ty d
        catch_error_def)
  show "deliver demo_platform demo_config RootPath (post (Some sig_unknown) body_unknown)
     = ([LogWebhookError TypeError], internal_server_error)"
    by (simp add: dr all_root_def all_root_try_def
        with_body_fields post_fields check_signature_def verifyWebhookSignature_def
        demo_config_def demo_secret_def falsy_def sig_unknown_def event_unknown_def
        catch_error_def writeLog_def)
  show "deliver demo_platform demo_config WebhookPath (post (Some sig_unknown) body_unknown)
     = ([LogReceivedEventType (JStr ''meeting.ended'')], received)"
    using demo_gate_unknown
    by (simp add: dw post_webhook_def post_webhook_try_def
        with_body_fields post_fields sig_unknown_def pb ty d catch_error_def)
qed

text \<open>
  C4. The specification says that the receiver exits with a non-zero status when the API
  key is not set. The receiver never reads the key at startup. Amended: the startup of
  the receiver is the same with and without the key: it never exits with a status of its
  own, and on a host where the log directory can be made and the port can be bound it
  listens with the configuration read from the environment. The check that exits with
  status 1 on a missing key is in the command-line script \<^verbatim>\<open>daily-test.js\<close>.
\<close>

theorem C4_startup_ignores_api_key:
  "webhook_server_startup (env\<lparr>DAILY_API_KEY := k\<rparr>) h = webhook_server_startup env h
   \<and> webhook_server_startup env h \<noteq> Exited n
   \<and> webhook_server_startup env \<lparr>log_dir_exists = d, mkdir_succeeds = True, listen_succeeds = True\<rparr>
       = Listening (read_config env)
   \<and> daily_test_startup True (env\<lparr>DAILY_API_KEY := None\<rparr>) = CliExited 1"
  by (simp add: webhook_server_startup_def read_config_def daily_test_startup_def falsy_def)

text \<open>Without an API key, on a host where nothing fails, the receiver listens.\<close>

theorem C4_counterexample:
  "webhook_server_startup
     \<lparr>DAILY_API_KEY = None, DAILY_WEBHOOK_SECRET = Some demo_secret, WEBHOOK_PORT = None,
      LOG_FILE_var = None\<rparr>
     \<lparr>log_dir_exists = True, mkdir_succeeds = True, listen_succeeds = True\<rparr>
   = Listening demo_config"
  by (simp add: webhook_server_startup_def read_config_def demo_config_def falsy_def)

text \<open>
  C5. The specification says that a body that is not valid JSON, and a decoded body
  without a \<^verbatim>\<open>type\<close> field, are both answered 500. The route has no check of the field:
  an event without it falls to the default branch of the switch. Amended: for a POST to
  \<^verbatim>\<open>/webhook\<close> that passes the signature gate, a body that \<^verbatim>\<open>JSON.parse\<close> refuses is
  answered 500, the log gets one line with the error, and the \<^verbatim>\<open>try\<close> block ends at the
  parse, before any handler; a decoded body whose \<^verbatim>\<open>type\<close> is undefined is logged as an
  event of that type and acknowledged with 200.
\<close>

theorem C5_malformed_body:
  assumes "check_signature P cfg (body req) (signature_header req) = Inr True"
  shows "(parse_event P (body req) = Inl e \<longrightarrow>
            post_webhook_try P cfg req = ([], Inl e)
            \<and> post_webhook P cfg req = ([LogWebhookError e], internal_server_error))
       \<and> (parse_event P (body req) = Inr event \<and> get_prop event ''type'' = Inr JUndefined \<longrightarrow>
            post_webhook P cfg req = ([LogReceivedEventType JUndefined], received))"
proof (intro conjI impI)
  assume "parse_event P (body req) = Inl e"
  with assms show t: "post_webhook_try P cfg req = ([], Inl e)"
    by (rule post_webhook_try_parse_error)
  then show "post_webhook P cfg req = ([LogWebhookError e], internal_server_error)"
    by (simp add: post_webhook_def catch_error_def writeLog_def)
next
  assume "parse_event P (body req) = Inr event \<and> get_prop event ''type'' = Inr JUndefined"
  with assms show "post_webhook P cfg req = ([LogReceivedEventType JUndefined], received)"
    by (simp add: post_webhook_def post_webhook_try_passed dispatch_def catch_error_def)
qed

theorem C5_witness:
  "check_signature demo_platform demo_config (Buffer body_not_json) (Some sig_not_json) = Inr True
   \<and> parse_event demo_platform (Buffer body_not_json) = Inl SyntaxError
   \<and> post_webhook demo_platform demo_config (post (Some sig_not_json) (Buffer body_not_json))
       = ([LogWebhookError SyntaxError], internal_server_error)
   \<and> check_signature demo_platform demo_config (Buffer body_no_type) (Some sig_no_type) = Inr True
   \<and> post_webhook demo_platform demo_config (post (Some sig_no_type) (Buffer body_no_type))
       = ([LogReceivedEventType JUndefined], received)"
proof -
  let ?bad = "post (Some sig_not_json) (Buffer body_not_json)"
  let ?bare = "post (Some sig_no_type) (Buffer body_no_type)"
  have gate1: "check_signature demo_platform demo_config (body ?bad) (signature_header ?bad) = Inr True"
    using demo_gate_not_json by (simp add: post_fields sig_not_json_def)
  have gate2: "check_signature demo_platform demo_config (body ?bare) (signature_header ?bare) = Inr True"
    using demo_gate_no_type by (simp add: post_fields sig_no_type_def)
  have parse1: "parse_event demo_platform (body ?bad) = Inl SyntaxError"
    by (simp add: post_fields parse_text_def demo_defs)
  have parse2: "parse_event demo_platform (body ?bare) = Inr (JObj [])"
    by (simp add: post_fields parse_text_def demo_defs)
  from C5_malformed_body [OF gate1, of SyntaxError] C5_malformed_body [OF gate2, of _ "JObj []"]
    parse1 parse2 demo_gate_not_json demo_gate_no_type
  show ?thesis by (simp add: post_fields)
qed

text \<open>
  Without a secret, the sample body \<^verbatim>\<open>{}\<close> has no \<^verbatim>\<open>type\<close> and is acknowledged with 200.
\<close>

theorem C5_counterexample:
  "parse_event demo_platform (Buffer body_no_type) = Inr (JObj [])
   \<and> get_prop (JObj []) ''type'' = Inr JUndefined
   \<and> post_webhook demo_platform open_config (post None (Buffer body_no_type))
       = ([LogReceivedEventType JUndefined], received)
   \<and> status received = 200"
  by (simp add: post_webhook_def post_webhook_try_def check_signature_def dispatch_def
      catch_error_def parse_text_def demo_defs received_def respond_def)

text \<open>
  C6. For every payload and secret, the hexadecimal HMAC of the payload verifies the same
  with the \<^verbatim>\<open>sha256=\<close> prefix and without it: both are accepted when the secret is not
  empty, both are refused when it is.
\<close>

theorem C6_prefix_insensitive:
  "verifyWebhookSignature P (Buffer data) (Some (''sha256='' @ hmac_hex P S data)) (Some S)
     = verifyWebhookSignature P (Buffer data) (Some (hmac_hex P S data)) (Some S)
   \<and> verifyWebhookSignature P (Buffer data) (Some (hmac_hex P S data)) (Some S) = Inr (S \<noteq> [])"
proof (cases "S = []")
  case True
  then show ?thesis by (simp add: verify_falsy falsy_def)
next
  case False
  have bare: "verifyWebhookSignature P (Buffer data) (Some (hmac_hex P S data)) (Some S) = Inr True"
    using False hmac_hex_not_empty [of P S data]
    by (rule verify_expected [OF _ _ _ hmac_hex_untagged]) simp_all
  have tagged:
    "verifyWebhookSignature P (Buffer data) (Some (''sha256='' @ hmac_hex P S data)) (Some S) = Inr True"
    using False by (rule verify_expected [OF _ _ _ actual_signature_tagged]) simp_all
  from bare tagged False show ?thesis by simp
qed







end
